theory Spec2Isabelle
  imports Complex_Main
begin

section \<open>JavaScript numbers\<close>

text \<open>
  A JavaScript number is modelled by its class: not-a-number, one of the two infinities,
  or a finite value. Finite values are exact reals: the rounding of double arithmetic,
  its overflow and underflow, and the sign of zero are not modelled. What the parsers
  and the colormap decide with \<open>isNaN\<close>, \<open>isFinite\<close>, comparisons and division by
  zero is modelled as IEEE 754 and ECMAScript define it, and so is the overflow to an
  infinity when a numeric literal is read or a number is stored in single precision.
  A call that spreads an array into its arguments throws a \<open>RangeError\<close> when the array
  is longer than the engine accepts arguments; that limit is a parameter of the model.
\<close>

datatype jsnum = Fin real | PInf | NInf | NaN

fun isNaN :: "jsnum \<Rightarrow> bool" where
  "isNaN NaN = True"
| "isNaN _ = False"

fun isFinite :: "jsnum \<Rightarrow> bool" where
  "isFinite (Fin _) = True"
| "isFinite _ = False"

text \<open>Unary minus.\<close>

fun js_neg :: "jsnum \<Rightarrow> jsnum" where
  "js_neg (Fin a) = Fin (- a)"
| "js_neg PInf = NInf"
| "js_neg NInf = PInf"
| "js_neg NaN = NaN"

text \<open>\<open>a + b\<close>: opposite infinities add up to NaN.\<close>

fun js_add :: "jsnum \<Rightarrow> jsnum \<Rightarrow> jsnum" where
  "js_add NaN _ = NaN"
| "js_add _ NaN = NaN"
| "js_add (Fin a) (Fin b) = Fin (a + b)"
| "js_add PInf NInf = NaN"
| "js_add NInf PInf = NaN"
| "js_add PInf _ = PInf"
| "js_add NInf _ = NInf"
| "js_add (Fin _) PInf = PInf"
| "js_add (Fin _) NInf = NInf"

text \<open>\<open>a - b\<close>.\<close>

definition js_sub :: "jsnum \<Rightarrow> jsnum \<Rightarrow> jsnum" where
  "js_sub a b = js_add a (js_neg b)"

text \<open>The sign of a number that is not NaN: \<open>-1\<close>, \<open>0\<close> or \<open>1\<close>.\<close>

fun js_sgn :: "jsnum \<Rightarrow> real" where
  "js_sgn (Fin a) = sgn a"
| "js_sgn PInf = 1"
| "js_sgn NInf = - 1"
| "js_sgn NaN = 0"

text \<open>\<open>a * b\<close>: an infinity times zero is NaN.\<close>

fun js_mul :: "jsnum \<Rightarrow> jsnum \<Rightarrow> jsnum" where
  "js_mul NaN _ = NaN"
| "js_mul _ NaN = NaN"
| "js_mul (Fin a) (Fin b) = Fin (a * b)"
| "js_mul a b =
     (if js_sgn a * js_sgn b = 0 then NaN
      else if js_sgn a * js_sgn b > 0 then PInf else NInf)"

text \<open>
  \<open>a / b\<close>: zero by zero and infinity by infinity are NaN, a non-zero finite value by
  zero is an infinity (of the sign of the dividend, the zero taken as positive).
\<close>

fun js_div :: "jsnum \<Rightarrow> jsnum \<Rightarrow> jsnum" where
  "js_div NaN _ = NaN"
| "js_div _ NaN = NaN"
| "js_div (Fin a) (Fin b) =
     (if b = 0 then (if a = 0 then NaN else if a > 0 then PInf else NInf)
      else Fin (a / b))"
| "js_div (Fin _) _ = Fin 0"
| "js_div a (Fin b) =
     (if js_sgn a * (if b < 0 then - 1 else 1) > 0 then PInf else NInf)"
| "js_div _ _ = NaN"

text \<open>\<open>a < b\<close>: false whenever an operand is NaN.\<close>

fun js_lt :: "jsnum \<Rightarrow> jsnum \<Rightarrow> bool" where
  "js_lt NaN _ = False"
| "js_lt _ NaN = False"
| "js_lt (Fin a) (Fin b) = (a < b)"
| "js_lt _ NInf = False"
| "js_lt PInf _ = False"
| "js_lt NInf _ = True"
| "js_lt (Fin _) PInf = True"

text \<open>\<open>a <= b\<close> of the language, again false on NaN.\<close>

definition js_le :: "jsnum \<Rightarrow> jsnum \<Rightarrow> bool" where
  "js_le a b = (\<not> isNaN a \<and> \<not> isNaN b \<and> \<not> js_lt b a)"

text \<open>\<open>Math.min\<close> and \<open>Math.max\<close> of two arguments: NaN if either is NaN.\<close>

definition Math_min2 :: "jsnum \<Rightarrow> jsnum \<Rightarrow> jsnum" where
  "Math_min2 a b = (if isNaN a \<or> isNaN b then NaN else if js_lt b a then b else a)"

definition Math_max2 :: "jsnum \<Rightarrow> jsnum \<Rightarrow> jsnum" where
  "Math_max2 a b = (if isNaN a \<or> isNaN b then NaN else if js_lt a b then b else a)"

text \<open>\<open>Math.min\<close> and \<open>Math.max\<close> of a list of arguments: with no argument they are
  \<open>Infinity\<close> and \<open>-Infinity\<close>.\<close>

definition Math_min :: "jsnum list \<Rightarrow> jsnum" where
  "Math_min xs = foldl Math_min2 PInf xs"

definition Math_max :: "jsnum list \<Rightarrow> jsnum" where
  "Math_max xs = foldl Math_max2 NInf xs"

text \<open>
  The errors with which the two parsers reject. \<open>RangeError\<close> is the one the engine
  throws for a call with too many arguments.
\<close>

datatype load_error =
    NoValidPoints
  | RangeError
  | InvalidPCDFormat
  | EmptyPointCloud
  | NoPointMesh
  | InvalidGeometry
  | LoaderError

text \<open>
  \<open>Math.min(...xs)\<close> and \<open>Math.max(...xs)\<close>: the spread passes every element of the
  array as an argument, and the call throws when there are more of them than the engine
  accepts. That number depends on the engine; it is the parameter \<open>maxArgs\<close> of the model.
\<close>

definition spread_min :: "nat \<Rightarrow> jsnum list \<Rightarrow> load_error + jsnum" where
  "spread_min maxArgs xs = (if maxArgs < length xs then Inl RangeError else Inr (Math_min xs))"

definition spread_max :: "nat \<Rightarrow> jsnum list \<Rightarrow> load_error + jsnum" where
  "spread_max maxArgs xs = (if maxArgs < length xs then Inl RangeError else Inr (Math_max xs))"

fun Math_floor :: "jsnum \<Rightarrow> jsnum" where
  "Math_floor (Fin a) = Fin (of_int \<lfloor>a\<rfloor>)"
| "Math_floor x = x"

text \<open>\<open>Math.round\<close>: the nearest integer, a half rounded up.\<close>

fun Math_round :: "jsnum \<Rightarrow> jsnum" where
  "Math_round (Fin a) = Fin (of_int \<lfloor>a + 1 / 2\<rfloor>)"
| "Math_round x = x"

text \<open>\<open>a % b\<close>: the remainder has the sign of the dividend.\<close>

fun js_rem :: "jsnum \<Rightarrow> jsnum \<Rightarrow> jsnum" where
  "js_rem (Fin a) (Fin b) =
     (if b = 0 then NaN
      else Fin (a - b * (if a / b < 0 then of_int \<lceil>a / b\<rceil> else of_int \<lfloor>a / b\<rfloor>)))"
| "js_rem (Fin a) PInf = Fin a"
| "js_rem (Fin a) NInf = Fin a"
| "js_rem _ _ = NaN"

text \<open>
  Storing a number in a \<open>Float32Array\<close>: a finite value whose magnitude reaches
  \<open>2^128 - 2^103\<close> becomes an infinity. The rounding of the values below that limit
  to single precision is not modelled.
\<close>

definition F32_LIMIT :: real where
  "F32_LIMIT = 340282356779733661637539395458142568448"

fun toFloat32 :: "jsnum \<Rightarrow> jsnum" where
  "toFloat32 (Fin a) =
     (if F32_LIMIT \<le> a then PInf else if a \<le> - F32_LIMIT then NInf else Fin a)"
| "toFloat32 x = x"

definition Float32Array :: "jsnum list \<Rightarrow> jsnum list" where
  "Float32Array xs = map toFloat32 xs"

section \<open>Colormap engine\<close>

text \<open>\<open>HSVtoRGB\<close>: no case of the \<open>switch\<close> matches a sector that is NaN or negative,
  and the result is then the initial \<open>(0, 0, 0)\<close>.\<close>

definition HSVtoRGB :: "jsnum \<Rightarrow> jsnum \<Rightarrow> jsnum \<Rightarrow> jsnum \<times> jsnum \<times> jsnum" where
  "HSVtoRGB h s v =
     (let i = Math_floor (js_mul h (Fin 6));
          f = js_sub (js_mul h (Fin 6)) i;
          p = js_mul v (js_sub (Fin 1) s);
          q = js_mul v (js_sub (Fin 1) (js_mul f s));
          t = js_mul v (js_sub (Fin 1) (js_mul (js_sub (Fin 1) f) s));
          k = js_rem i (Fin 6)
      in if k = Fin 0 then (v, t, p)
         else if k = Fin 1 then (q, v, p)
         else if k = Fin 2 then (p, v, t)
         else if k = Fin 3 then (p, q, v)
         else if k = Fin 4 then (t, p, v)
         else if k = Fin 5 then (v, p, q)
         else (Fin 0, Fin 0, Fin 0))"

text \<open>The body of the \<open>switch (mapType)\<close> of \<open>createColorMapForCSV\<close>: the colour of one
  normalized value. Every name other than \<open>rainbow\<close> and \<open>elevation\<close> is the default.\<close>

definition colorOf :: "string \<Rightarrow> jsnum \<Rightarrow> jsnum \<times> jsnum \<times> jsnum" where
  "colorOf mapType normalized =
     (if mapType = ''rainbow'' then
        (let hue = js_mul (js_sub (Fin 1) normalized) (Fin 270)
         in HSVtoRGB (js_div hue (Fin 360)) (Fin 1) (Fin 1))
      else if mapType = ''elevation'' then
        (if js_lt normalized (Fin 0.2) then
           (Fin 0, js_mul normalized (Fin 5), Fin 1)
         else if js_lt normalized (Fin 0.4) then
           (Fin 0, Fin 1, js_sub (Fin 1) (js_mul (js_sub normalized (Fin 0.2)) (Fin 5)))
         else if js_lt normalized (Fin 0.6) then
           (js_mul (js_sub normalized (Fin 0.4)) (Fin 5), Fin 1, Fin 0)
         else if js_lt normalized (Fin 0.8) then
           (Fin 1, js_sub (Fin 1) (js_mul (js_sub normalized (Fin 0.6)) (Fin 5)), Fin 0)
         else
           (Fin 1, js_mul (js_sub normalized (Fin 0.8)) (Fin 5),
            js_mul (js_sub normalized (Fin 0.8)) (Fin 5)))
      else
        (if js_lt normalized (Fin 0.5) then
           (Fin 0, js_mul normalized (Fin 2), js_sub (Fin 1) (js_mul normalized (Fin 2)))
         else
           (js_mul (js_sub normalized (Fin 0.5)) (Fin 2),
            js_sub (Fin 1) (js_mul (js_sub normalized (Fin 0.5)) (Fin 2)), Fin 0)))"

text \<open>\<open>createColorMapForCSV\<close>: the two spreads, which may throw, then one triple per
  value, written into a \<open>Float32Array\<close>. The subtractions and the division are exact:
  their overflow for values that lie further apart than a double can hold is not
  modelled.\<close>

definition createColorMapForCSV :: "nat \<Rightarrow> jsnum list \<Rightarrow> string \<Rightarrow> load_error + jsnum list" where
  "createColorMapForCSV maxArgs zValues mapType =
     (case spread_min maxArgs zValues of
        Inl e \<Rightarrow> Inl e
      | Inr mn \<Rightarrow>
        (case spread_max maxArgs zValues of
           Inl e \<Rightarrow> Inl e
         | Inr mx \<Rightarrow>
           (let range = js_sub mx mn
            in Inr (concat (map (\<lambda>z.
                 (case colorOf mapType (js_div (js_sub z mn) range) of
                    (r, g, b) \<Rightarrow> [toFloat32 r, toFloat32 g, toFloat32 b])) zValues)))))"

text \<open>A colour component is acceptable when it is a number between 0 and 1.\<close>

definition unit_component :: "jsnum \<Rightarrow> bool" where
  "unit_component c = (case c of Fin a \<Rightarrow> 0 \<le> a \<and> a \<le> 1 | _ \<Rightarrow> False)"

section \<open>Delimited-text parser\<close>

text \<open>
  The input of the model is \<open>results.data\<close>, the rows the CSV library hands to the
  \<open>complete\<close> callback: the library itself is not part of the repository. A cell is
  represented by the number \<open>ToNumber\<close> gives for it, which is all that \<open>loadCSV\<close>
  observes of a cell (through \<open>isNaN\<close>, \<open>isFinite\<close>, \<open>Math.min\<close>, arithmetic and the
  \<open>Float32Array\<close> store); a text cell that is not numeric, such as a header field, is
  \<open>NaN\<close>.
\<close>

record PointData =
  positions :: "jsnum list"
  colors :: "jsnum list"
  originalData :: "jsnum list list"
  zValues :: "jsnum list"

record CSVResult = PointData +
  hasRGB :: bool

record PCDResult = PointData +
  hasColor :: bool

text \<open>The local arrays and the counter that the \<open>forEach\<close> callback of \<open>loadCSV\<close> updates.\<close>

record csv_acc =
  acc_positions :: "jsnum list"
  acc_zValues :: "jsnum list"
  acc_colors :: "jsnum list"
  validPointCount :: nat

definition csv_acc0 :: csv_acc where
  "csv_acc0 = \<lparr>acc_positions = [], acc_zValues = [], acc_colors = [], validPointCount = 0\<rparr>"

text \<open>\<open>isNaN(c) ? 128 : Math.max(0, Math.min(255, c))\<close>, then the division by 255.\<close>

definition validChannel :: "jsnum \<Rightarrow> jsnum" where
  "validChannel c = (if isNaN c then Fin 128 else Math_max2 (Fin 0) (Math_min2 (Fin 255) c))"

definition normChannel :: "jsnum \<Rightarrow> jsnum" where
  "normChannel c = js_div (validChannel c) (Fin 255)"

text \<open>One call of the \<open>forEach\<close> callback.\<close>

definition csv_row :: "bool \<Rightarrow> csv_acc \<Rightarrow> jsnum list \<Rightarrow> csv_acc" where
  "csv_row rgb acc dataRow =
     (if 3 \<le> length dataRow then
        (let x = dataRow ! 0; y = dataRow ! 1; z = dataRow ! 2
         in if isNaN x \<or> isNaN y \<or> isNaN z \<or>
               \<not> isFinite x \<or> \<not> isFinite y \<or> \<not> isFinite z
            then acc
            else
              (let acc1 = acc\<lparr>acc_positions := acc_positions acc @ [x, y, z],
                                acc_zValues := acc_zValues acc @ [z],
                                validPointCount := validPointCount acc + 1\<rparr>
               in if rgb \<and> 6 \<le> length dataRow then
                    acc1\<lparr>acc_colors := acc_colors acc1 @
                       [normChannel (dataRow ! 3), normChannel (dataRow ! 4),
                        normChannel (dataRow ! 5)]\<rparr>
                  else acc1))
      else acc)"

text \<open>\<open>results.data[0] && results.data[0].length >= 6\<close>: falsy when there is no row.\<close>

definition firstRowHasRGB :: "jsnum list list \<Rightarrow> bool" where
  "firstRowHasRGB data = (case data of [] \<Rightarrow> False | row0 # _ \<Rightarrow> 6 \<le> length row0)"

text \<open>The call of the optional callback with the extrema of the z values, which are
  computed by two spreads: the caller's state after it, or the error thrown before it.\<close>

definition reportBounds ::
  "nat \<Rightarrow> (jsnum \<Rightarrow> jsnum \<Rightarrow> 's \<Rightarrow> 's) option \<Rightarrow> jsnum list \<Rightarrow> 's \<Rightarrow> load_error + 's" where
  "reportBounds maxArgs updateHeightBounds zs st =
     (case updateHeightBounds of
        Some upd \<Rightarrow>
          if 0 < length zs then
            (case spread_min maxArgs zs of
               Inl e \<Rightarrow> Inl e
             | Inr minZ \<Rightarrow>
               (case spread_max maxArgs zs of
                  Inl e \<Rightarrow> Inl e
                | Inr maxZ \<Rightarrow> Inr (upd minZ maxZ st)))
          else Inr st
      | None \<Rightarrow> Inr st)"

text \<open>
  The \<open>complete\<close> callback of \<open>loadCSV\<close>, on an engine that accepts \<open>maxArgs\<close> arguments.
  The optional \<open>updateHeightBounds\<close> acts on the caller's state \<open>'s\<close>. Whatever is
  thrown inside the \<open>try\<close> rejects the promise: that is \<open>Inl\<close>, and the caller's state
  is then as it was.
\<close>

definition loadCSV ::
  "nat \<Rightarrow> jsnum list list \<Rightarrow> string \<Rightarrow> (jsnum \<Rightarrow> jsnum \<Rightarrow> 's \<Rightarrow> 's) option \<Rightarrow> 's
     \<Rightarrow> load_error + (CSVResult \<times> 's)" where
  "loadCSV maxArgs data colorMapType updateHeightBounds st =
     (let rgb = firstRowHasRGB data;
          acc = foldl (csv_row rgb) csv_acc0 data
      in if validPointCount acc = 0 then Inl NoValidPoints
         else
           (let positionArray = Float32Array (acc_positions acc)
            in case (if rgb then Inr (Float32Array (acc_colors acc))
                     else createColorMapForCSV maxArgs (acc_zValues acc) colorMapType) of
                 Inl e \<Rightarrow> Inl e
               | Inr colorArray \<Rightarrow>
                 (case reportBounds maxArgs updateHeightBounds (acc_zValues acc) st of
                    Inl e \<Rightarrow> Inl e
                  | Inr st1 \<Rightarrow>
                      Inr (\<lparr>positions = positionArray, colors = colorArray,
                            originalData = data, zValues = acc_zValues acc, hasRGB = rgb\<rparr>,
                           st1))))"

section \<open>Strings\<close>

text \<open>
  A string is a list of characters with codes below 256. The functions below are the
  methods of the language that \<open>loadPCD\<close> calls, on such strings.
\<close>

definition is_ws :: "char \<Rightarrow> bool" where
  "is_ws c = (c \<in> set [CHR 0x09, CHR 0x0A, CHR 0x0B, CHR 0x0C, CHR 0x0D, CHR 0x20, CHR 0xA0])"

definition trim :: "string \<Rightarrow> string" where
  "trim s = rev (dropWhile is_ws (rev (dropWhile is_ws s)))"

definition startsWith :: "string \<Rightarrow> string \<Rightarrow> bool" where
  "startsWith s p = (take (length p) s = p)"

fun includes_str :: "string \<Rightarrow> string \<Rightarrow> bool" where
  "includes_str [] p = (p = [])"
| "includes_str (c # cs) p = (startsWith (c # cs) p \<or> includes_str cs p)"

text \<open>\<open>s.split(c)\<close> for a separator of one character.\<close>

fun split_on :: "char \<Rightarrow> string \<Rightarrow> string list" where
  "split_on sep [] = [[]]"
| "split_on sep (c # cs) =
     (if c = sep then [] # split_on sep cs
      else (case split_on sep cs of [] \<Rightarrow> [[c]] | w # ws \<Rightarrow> (c # w) # ws))"

text \<open>\<open>s.split(/\s+/)\<close>: the separators are the maximal runs of white space.\<close>

function split_ws :: "string \<Rightarrow> string list" where
  "split_ws [] = [[]]"
| "split_ws (c # cs) =
     (if is_ws c then [] # split_ws (dropWhile is_ws cs)
      else (case split_ws cs of [] \<Rightarrow> [[c]] | w # ws \<Rightarrow> (c # w) # ws))"
  by pat_completeness auto
termination
  by (relation "measure length") (auto simp: length_dropWhile_le less_Suc_eq_le)

text \<open>An array read: past the end it is \<open>undefined\<close>, which every use here converts
  to a number, that is to NaN.\<close>

definition js_nth :: "jsnum list \<Rightarrow> nat \<Rightarrow> jsnum" where
  "js_nth xs i = (if i < length xs then xs ! i else NaN)"

subsection \<open>Strings to numbers\<close>

text \<open>A numeric literal beyond the range of a double is an infinity.\<close>

definition DBL_LIMIT :: real where
  "DBL_LIMIT = 2 ^ 1024 - 2 ^ 970"

definition toDouble :: "real \<Rightarrow> jsnum" where
  "toDouble a = (if DBL_LIMIT \<le> a then PInf else if a \<le> - DBL_LIMIT then NInf else Fin a)"

definition digit_of :: "char \<Rightarrow> nat option" where
  "digit_of c =
     (let n = (of_char c :: nat)
      in if 48 \<le> n \<and> n \<le> 57 then Some (n - 48)
         else if 97 \<le> n \<and> n \<le> 102 then Some (n - 87)
         else if 65 \<le> n \<and> n \<le> 70 then Some (n - 55)
         else None)"

definition is_digit :: "nat \<Rightarrow> char \<Rightarrow> bool" where
  "is_digit radix c = (case digit_of c of None \<Rightarrow> False | Some d \<Rightarrow> d < radix)"

definition digits_val :: "nat \<Rightarrow> string \<Rightarrow> nat" where
  "digits_val radix ds = foldl (\<lambda>n c. radix * n + the (digit_of c)) 0 ds"

text \<open>An optional sign in front of a literal.\<close>

definition strip_sign :: "string \<Rightarrow> bool \<times> string" where
  "strip_sign s = (case s of [] \<Rightarrow> (False, [])
     | c # cs \<Rightarrow> if c = CHR ''-'' then (True, cs) else if c = CHR ''+'' then (False, cs)
                 else (False, c # cs))"

text \<open>\<open>parseInt(s)\<close> without a radix: leading white space, a sign, an optional
  \<open>0x\<close>, then the longest run of digits; NaN when there is none.\<close>

definition parseInt :: "string \<Rightarrow> jsnum" where
  "parseInt s =
     (let (neg, u) = strip_sign (dropWhile is_ws s);
          hex = (startsWith u ''0x'' \<or> startsWith u ''0X'');
          radix = (if hex then 16 else 10);
          ds = takeWhile (is_digit radix) (if hex then drop 2 u else u)
      in if ds = [] then NaN
         else toDouble ((if neg then - 1 else 1) * real (digits_val radix ds)))"

text \<open>The unsigned decimal literals of \<open>Number(s)\<close>: digits, an optional fraction, an
  optional exponent; \<open>None\<close> when the string is not one.\<close>

definition parse_decimal :: "string \<Rightarrow> real option" where
  "parse_decimal u =
     (let ip = takeWhile (is_digit 10) u;
          r1 = dropWhile (is_digit 10) u;
          fp = (case r1 of [] \<Rightarrow> [] | c # cs \<Rightarrow>
                  if c = CHR ''.'' then takeWhile (is_digit 10) cs else []);
          r2 = (case r1 of [] \<Rightarrow> [] | c # cs \<Rightarrow>
                  if c = CHR ''.'' then dropWhile (is_digit 10) cs else r1);
          m = real (digits_val 10 ip) + real (digits_val 10 fp) / 10 ^ length fp
      in if ip = [] \<and> fp = [] then None
         else (case r2 of [] \<Rightarrow> Some m
               | e # r3 \<Rightarrow>
                   if e = CHR ''e'' \<or> e = CHR ''E'' then
                     (let (eneg, ds) = strip_sign r3
                      in if ds \<noteq> [] \<and> list_all (is_digit 10) ds then
                           Some (if eneg then m / 10 ^ digits_val 10 ds
                                 else m * 10 ^ digits_val 10 ds)
                         else None)
                   else None))"

text \<open>A literal with a radix prefix: \<open>0x\<close>, \<open>0o\<close> or \<open>0b\<close>, in either case.\<close>

definition radix_prefix :: "string \<Rightarrow> nat option" where
  "radix_prefix t =
     (if startsWith t ''0x'' \<or> startsWith t ''0X'' then Some 16
      else if startsWith t ''0o'' \<or> startsWith t ''0O'' then Some 8
      else if startsWith t ''0b'' \<or> startsWith t ''0B'' then Some 2
      else None)"

text \<open>\<open>Number(s)\<close>: the empty string is 0, a string that is no numeric literal is NaN.\<close>

definition js_Number :: "string \<Rightarrow> jsnum" where
  "js_Number s =
     (let t = trim s
      in if t = [] then Fin 0
         else (case radix_prefix t of
                 Some radix \<Rightarrow>
                   if drop 2 t \<noteq> [] \<and> list_all (is_digit radix) (drop 2 t)
                   then toDouble (real (digits_val radix (drop 2 t))) else NaN
               | None \<Rightarrow>
                   (let (neg, u) = strip_sign t
                    in if u = ''Infinity'' then (if neg then NInf else PInf)
                       else (case parse_decimal u of
                               None \<Rightarrow> NaN
                             | Some m \<Rightarrow> toDouble (if neg then - m else m)))))"

section \<open>Scientific-format parser\<close>

text \<open>The grey 0.7 as a \<open>Float32Array\<close> holds it: the single-precision number
  nearest to 0.7, which is \<open>11744051 / 2^24\<close>.\<close>

definition GREY_F32 :: jsnum where
  "GREY_F32 = Fin (11744051 / 16777216)"

text \<open>\<open>createSingleColorForPCD\<close>: a zero-filled \<open>Float32Array\<close> of \<open>pointCount * 3\<close>
  entries, then the grey of every point; a write past the end of a typed array is
  ignored, as a list update is.\<close>

definition createSingleColorForPCD :: "real \<Rightarrow> jsnum list" where
  "createSingleColorForPCD pointCount =
     foldl (\<lambda>cs i. cs[i * 3 := GREY_F32, i * 3 + 1 := GREY_F32, i * 3 + 2 := GREY_F32])
       (replicate (nat \<lfloor>pointCount * 3\<rfloor>) (Fin 0)) [0..<nat \<lceil>pointCount\<rceil>]"

record pcd_header =
  dataStartLine :: nat
  pointCount :: jsnum
  hdr_hasColor :: bool
  isASCII :: bool

definition pcd_header0 :: pcd_header where
  "pcd_header0 = \<lparr>dataStartLine = 0, pointCount = Fin 0, hdr_hasColor = False, isASCII = False\<rparr>"

text \<open>The header loop, from line \<open>i\<close> on; it stops at the \<open>DATA\<close> line.\<close>

fun scanHeader :: "nat \<Rightarrow> string list \<Rightarrow> pcd_header \<Rightarrow> pcd_header" where
  "scanHeader i [] h = h"
| "scanHeader i (l # ls) h =
     (let line = trim l
      in if startsWith line ''POINTS'' then
           scanHeader (i + 1) ls
             (h\<lparr>pointCount :=
                  (let parts = split_on CHR '' '' line
                   in parseInt (if 1 < length parts then parts ! 1 else ''undefined''))\<rparr>)
         else if startsWith line ''FIELDS'' then
           scanHeader (i + 1) ls
             (h\<lparr>hdr_hasColor := (includes_str line ''rgb'' \<or> includes_str line ''r'' \<or>
                                  includes_str line ''rgba'')\<rparr>)
         else if startsWith line ''DATA'' then
           h\<lparr>isASCII := includes_str line ''ascii'', dataStartLine := i + 1\<rparr>
         else scanHeader (i + 1) ls h)"

text \<open>One data line: the arrays \<open>positions\<close> and \<open>colors\<close> before and after it.\<close>

definition pcd_line :: "bool \<Rightarrow> jsnum list \<times> jsnum list \<Rightarrow> string \<Rightarrow> jsnum list \<times> jsnum list" where
  "pcd_line hc acc l =
     (let line = trim l
      in if line = [] then acc
         else
           (let values = map js_Number (split_ws line)
            in if 3 \<le> length values then
                 (fst acc @ [values ! 0, values ! 1, values ! 2],
                  if hc \<and> 6 \<le> length values then
                    snd acc @ [js_div (values ! 3) (Fin 255), js_div (values ! 4) (Fin 255),
                               js_div (values ! 5) (Fin 255)]
                  else snd acc)
               else acc))"

text \<open>The loops \<open>for (let i = 0; i < ps.length / 3; i++)\<close> that extract the z values
  and rebuild the rows kept for the export.\<close>

definition extractZ :: "jsnum list \<Rightarrow> jsnum list" where
  "extractZ ps = map (\<lambda>i. js_nth ps (i * 3 + 2)) [0..<(length ps + 2) div 3]"

definition rebuildRows :: "jsnum list \<Rightarrow> jsnum list \<Rightarrow> jsnum list list" where
  "rebuildRows ps cs =
     map (\<lambda>i. [js_nth ps (i * 3), js_nth ps (i * 3 + 1), js_nth ps (i * 3 + 2),
               Math_round (js_mul (js_nth cs (i * 3)) (Fin 255)),
               Math_round (js_mul (js_nth cs (i * 3 + 1)) (Fin 255)),
               Math_round (js_mul (js_nth cs (i * 3 + 2)) (Fin 255))])
       [0..<(length ps + 2) div 3]"

text \<open>
  What the delegate loader hands back: an error, a group of objects, or a single object
  (which the code wraps into a group). An object is a \<open>Points\<close> or another object with a
  \<open>geometry\<close> property, or an object without one; a geometry that is missing or has no
  attributes is \<open>None\<close>.
\<close>

record geometry =
  attr_position :: "jsnum list option"
  attr_color :: "jsnum list option"

datatype object3d = Points "geometry option" | OtherWithGeometry "geometry option" | Plain

datatype loaded = LoadFailed | Group "object3d list" | Single object3d

text \<open>The fallback after the direct parse: the result of the delegate loader.\<close>

definition loadPCD_fallback ::
  "nat \<Rightarrow> loaded \<Rightarrow> (jsnum \<Rightarrow> jsnum \<Rightarrow> 's \<Rightarrow> 's) option \<Rightarrow> 's
     \<Rightarrow> load_error + (PCDResult \<times> 's)" where
  "loadPCD_fallback maxArgs ld updateHeightBounds st =
     (case ld of
        LoadFailed \<Rightarrow> Inl LoaderError
      | _ \<Rightarrow>
        (let children = (case ld of Group os \<Rightarrow> os | Single ob \<Rightarrow> [ob] | LoadFailed \<Rightarrow> [])
         in case children of
              [] \<Rightarrow> Inl EmptyPointCloud
            | pointMesh # _ \<Rightarrow>
              (case pointMesh of
                 Plain \<Rightarrow> Inl NoPointMesh
               | _ \<Rightarrow>
                 (case (case pointMesh of Points g \<Rightarrow> g | OtherWithGeometry g \<Rightarrow> g
                        | Plain \<Rightarrow> None) of
                    None \<Rightarrow> Inl InvalidGeometry
                  | Some g \<Rightarrow>
                    (case attr_position g of
                       None \<Rightarrow> Inl InvalidGeometry
                     | Some positionsArray \<Rightarrow>
                       (let colorsArray =
                              (case attr_color g of
                                 Some ca \<Rightarrow> ca
                               | None \<Rightarrow>
                                   createSingleColorForPCD (real (length positionsArray) / 3));
                            zValuesArray = extractZ positionsArray
                        in case reportBounds maxArgs updateHeightBounds zValuesArray st of
                             Inl e \<Rightarrow> Inl e
                           | Inr st1 \<Rightarrow>
                               Inr (\<lparr>positions = positionsArray, colors = colorsArray,
                                     originalData = rebuildRows positionsArray colorsArray,
                                     zValues = zValuesArray,
                                     hasColor = (attr_color g \<noteq> None)\<rparr>,
                                    st1)))))))"

text \<open>
  \<open>loadPCD\<close> from the decoded text on, on an engine that accepts \<open>maxArgs\<close> arguments. The
  signature test comes first; then the header scan and, for an ASCII file with a positive
  point count, the direct parse of the data lines; when that yields no point, or is not
  tried, the delegate loader's result is used. Whatever is thrown on the way rejects the
  promise.
\<close>

definition loadPCD ::
  "nat \<Rightarrow> string \<Rightarrow> loaded \<Rightarrow> (jsnum \<Rightarrow> jsnum \<Rightarrow> 's \<Rightarrow> 's) option \<Rightarrow> 's
     \<Rightarrow> load_error + (PCDResult \<times> 's)" where
  "loadPCD maxArgs text ld updateHeightBounds st =
     (if \<not> startsWith text ''# .PCD'' \<and> \<not> includes_str text ''VERSION'' then Inl InvalidPCDFormat
      else
        (let lines = split_on CHR 0x0A text;
             h = scanHeader 0 lines pcd_header0;
             acc = (if isASCII h \<and> js_lt (Fin 0) (pointCount h)
                    then foldl (pcd_line (hdr_hasColor h)) ([], []) (drop (dataStartLine h) lines)
                    else ([], []))
         in if 0 < length (fst acc) then
              (let posArray = Float32Array (fst acc);
                   colorArray = (if 0 < length (snd acc) then Float32Array (snd acc)
                                 else createSingleColorForPCD (real (length (fst acc)) / 3));
                   zs = extractZ (fst acc)
               in case reportBounds maxArgs updateHeightBounds zs st of
                    Inl e \<Rightarrow> Inl e
                  | Inr st1 \<Rightarrow>
                      Inr (\<lparr>positions = posArray, colors = colorArray,
                            originalData = rebuildRows (fst acc) colorArray,
                            zValues = zs, hasColor = (0 < length (snd acc))\<rparr>,
                           st1))
            else loadPCD_fallback maxArgs ld updateHeightBounds st))"

section \<open>Export encoder\<close>

text \<open>
  The exported text is represented by its rows, and a field by the number it reads back
  as: printing a number and decoding the text again belong to the language and to the CSV
  library. The header \<open>X,Y,Z,R,G,B\<close> is a row of six fields that are not numbers.
\<close>

definition csvHeader :: "jsnum list" where
  "csvHeader = replicate 6 NaN"

definition exportCloud :: "'a PointData_scheme \<Rightarrow> jsnum list list" where
  "exportCloud d = rebuildRows (positions d) (colors d)"

text \<open>\<open>exportToCSV\<close>: the selected clouds when there is a selection, else all of them;
  a cloud is its identifier and its data.\<close>

definition exportToCSV :: "string list \<Rightarrow> (string \<times> 'a PointData_scheme) list \<Rightarrow> jsnum list list" where
  "exportToCSV selectedPoints pointClouds =
     (let cloudsToExport =
            (if 0 < length selectedPoints
             then filter (\<lambda>pc. fst pc \<in> set selectedPoints) pointClouds
             else pointClouds)
      in csvHeader # concat (map (\<lambda>pc. exportCloud (snd pc)) cloudsToExport))"

section \<open>Bounds tracker\<close>

text \<open>The updater that \<open>updateHeightBounds\<close> passes to \<open>setHeightBounds\<close>.\<close>

definition mergeBounds :: "jsnum \<times> jsnum \<Rightarrow> jsnum \<Rightarrow> jsnum \<Rightarrow> jsnum \<times> jsnum" where
  "mergeBounds prevBounds minZ maxZ =
     (Math_min2 (fst prevBounds) minZ, Math_max2 (snd prevBounds) maxZ)"

record app_state =
  heightBounds :: "jsnum \<times> jsnum"
  heightRange :: "jsnum \<times> jsnum"

text \<open>The state of the two \<open>useState\<close> hooks when the component mounts.\<close>

definition app_state0 :: app_state where
  "app_state0 = \<lparr>heightBounds = (Fin (- 10), Fin 10), heightRange = (Fin (- 10), Fin 10)\<rparr>"

definition updateHeightBounds :: "jsnum \<Rightarrow> jsnum \<Rightarrow> app_state \<Rightarrow> app_state" where
  "updateHeightBounds minZ maxZ st =
     (let nb = mergeBounds (heightBounds st) minZ maxZ
      in st\<lparr>heightBounds := nb, heightRange := nb\<rparr>)"

text \<open>A session: the bounds updates of the files loaded one after the other.\<close>

definition updateAll :: "(jsnum \<times> jsnum) list \<Rightarrow> app_state \<Rightarrow> app_state" where
  "updateAll us st = foldl (\<lambda>s (mn, mx). updateHeightBounds mn mx s) st us"

text \<open>An interval contains another: both comparisons hold in the language's \<open><=\<close>.\<close>

definition contains_interval :: "jsnum \<times> jsnum \<Rightarrow> jsnum \<times> jsnum \<Rightarrow> bool" where
  "contains_interval outer inner = (js_le (fst outer) (fst inner) \<and> js_le (snd inner) (snd outer))"

section \<open>The specification's words\<close>

text \<open>A row is accepted when it has at least three fields and its first three are
  finite numbers: neither NaN nor an infinity.\<close>

definition accepted :: "jsnum list \<Rightarrow> bool" where
  "accepted row = (3 \<le> length row \<and> isFinite (row ! 0) \<and> isFinite (row ! 1) \<and> isFinite (row ! 2))"

definition row_xyz :: "jsnum list \<Rightarrow> jsnum list" where
  "row_xyz row = [row ! 0, row ! 1, row ! 2]"

text \<open>The colour of a row with fields 3, 4 and 5: each channel with 128 for NaN, clamped
  to 0..255 and divided by 255.\<close>

definition clampChannel :: "jsnum \<Rightarrow> real" where
  "clampChannel c = (case c of Fin a \<Rightarrow> max 0 (min 255 a) | PInf \<Rightarrow> 255 | NInf \<Rightarrow> 0 | NaN \<Rightarrow> 128)"

definition row_rgb :: "jsnum list \<Rightarrow> jsnum list" where
  "row_rgb row = [Fin (clampChannel (row ! 3) / 255), Fin (clampChannel (row ! 4) / 255),
                  Fin (clampChannel (row ! 5) / 255)]"

text \<open>The elevation ramp of the specification: five bands of width 0.2, each the linear
  interpolation of its two end colours by the fraction of the band, times 5.\<close>

definition lerp3 :: "real \<times> real \<times> real \<Rightarrow> real \<times> real \<times> real \<Rightarrow> real \<Rightarrow> jsnum \<times> jsnum \<times> jsnum" where
  "lerp3 c0 c1 s =
     (case c0 of (r0, g0, b0) \<Rightarrow> case c1 of (r1, g1, b1) \<Rightarrow>
        (Fin (r0 + (r1 - r0) * s), Fin (g0 + (g1 - g0) * s), Fin (b0 + (b1 - b0) * s)))"

definition elevation_ramp :: "real \<Rightarrow> jsnum \<times> jsnum \<times> jsnum" where
  "elevation_ramp t =
     (if t < 0.2 then lerp3 (0, 0, 1) (0, 1, 1) (t * 5)
      else if t < 0.4 then lerp3 (0, 1, 1) (0, 1, 0) ((t - 0.2) * 5)
      else if t < 0.6 then lerp3 (0, 1, 0) (1, 1, 0) ((t - 0.4) * 5)
      else if t < 0.8 then lerp3 (1, 1, 0) (1, 0, 0) ((t - 0.6) * 5)
      else lerp3 (1, 0, 0) (1, 1, 1) ((t - 0.8) * 5))"




text \<open>A record exported alone and parsed again as delimited text, on an engine that
  accepts \<open>maxArgs\<close> arguments. The parser is called without the callback; the rows
  of the export have six fields, so that no spread is evaluated on the way.\<close>

definition roundTrip :: "nat \<Rightarrow> 'a PointData_scheme \<Rightarrow> load_error + (CSVResult \<times> unit)" where
  "roundTrip maxArgs d = loadCSV maxArgs (exportToCSV [] [(''cloud'', d)]) ''default'' None ()"

text \<open>A parser's outcome once the record is built: the error of the bounds report, or
  the record with the caller's state after it.\<close>

definition resolved :: "'r \<Rightarrow> load_error + 's \<Rightarrow> load_error + ('r \<times> 's)" where
  "resolved r b = (case b of Inl e \<Rightarrow> Inl e | Inr st \<Rightarrow> Inr (r, st))"

section \<open>Example inputs\<close>

text \<open>An ASCII file of one red point whose third coordinate is the token \<open>nan\<close>.\<close>

definition pcd_nan_file :: string where
  "pcd_nan_file = concat (map (\<lambda>l. l @ [CHR 0x0A])
     [''# .PCD v0.7'', ''VERSION 0.7'', ''FIELDS x y z r g b'', ''POINTS 1'', ''DATA ascii'',
      ''1 2 nan 255 0 0''])"



section \<open>The delimited-text parser, row by row\<close>

lemma isFinite_not_NaN: "isFinite x \<Longrightarrow> \<not> isNaN x"
  by (cases x) simp_all

lemma normChannel_eq: "normChannel c = Fin (clampChannel c / 255)"
  by (cases c) (simp_all add: normChannel_def validChannel_def clampChannel_def
      Math_max2_def Math_min2_def max_def min_def)

text \<open>One step of the loop: an accepted row adds one point, and a colour when the flag
  is set and the row has six fields; any other row changes nothing.\<close>

lemma csv_row_eq:
  "csv_row rgb acc row =
     (if accepted row then
        \<lparr>acc_positions = acc_positions acc @ row_xyz row,
         acc_zValues = acc_zValues acc @ [row ! 2],
         acc_colors = acc_colors acc @ (if rgb \<and> 6 \<le> length row then row_rgb row else []),
         validPointCount = Suc (validPointCount acc)\<rparr>
      else acc)"
proof (cases "accepted row")
  case True
  then show ?thesis
    by (simp add: csv_row_def accepted_def isFinite_not_NaN Let_def row_xyz_def row_rgb_def
        normChannel_eq)
next
  case False
  then show ?thesis
    by (auto simp add: csv_row_def accepted_def Let_def)
qed

lemma csv_fold:
  "foldl (csv_row rgb) acc data =
     \<lparr>acc_positions = acc_positions acc @ concat (map row_xyz (filter accepted data)),
      acc_zValues = acc_zValues acc @ map (\<lambda>row. row ! 2) (filter accepted data),
      acc_colors = acc_colors acc @
         (if rgb then concat (map row_rgb (filter (\<lambda>row. 6 \<le> length row) (filter accepted data)))
          else []),
      validPointCount = validPointCount acc + length (filter accepted data)\<rparr>"
proof (induction data arbitrary: acc)
  case Nil
  show ?case by simp
next
  case (Cons row data)
  show ?case
    unfolding foldl_Cons Cons.IH by (simp add: csv_row_eq)
qed

lemma clampChannel_range: "0 \<le> clampChannel c \<and> clampChannel c \<le> 255"
  by (cases c) (simp_all add: clampChannel_def)

lemma toFloat32_clamp: "toFloat32 (Fin (clampChannel c / 255)) = Fin (clampChannel c / 255)"
  using clampChannel_range [of c] by (simp add: F32_LIMIT_def)

lemma Float32Array_row_rgb: "Float32Array (concat (map row_rgb rows)) = concat (map row_rgb rows)"
  by (induction rows)
    (simp_all add: Float32Array_def row_rgb_def toFloat32_clamp del: toFloat32.simps)

text \<open>The spreads throw nothing but a \<open>RangeError\<close>, and only on an array longer than
  the engine's limit.\<close>

lemma createColorMapForCSV_eq:
  "createColorMapForCSV maxArgs zs cm =
     (if maxArgs < length zs then Inl RangeError
      else Inr (concat (map (\<lambda>z.
             (case colorOf cm (js_div (js_sub z (Math_min zs)) (js_sub (Math_max zs) (Math_min zs))) of
                (r, g, b) \<Rightarrow> [toFloat32 r, toFloat32 g, toFloat32 b])) zs)))"
  by (simp add: createColorMapForCSV_def spread_min_def spread_max_def Let_def)

lemma reportBounds_eq:
  "reportBounds maxArgs upd zs st =
     (case upd of
        None \<Rightarrow> Inr st
      | Some u \<Rightarrow>
          if zs = [] then Inr st
          else if maxArgs < length zs then Inl RangeError
          else Inr (u (Math_min zs) (Math_max zs) st))"
  by (simp add: reportBounds_def spread_min_def spread_max_def split: option.splits)

lemma reportBounds_None [simp]: "reportBounds maxArgs None zs st = Inr st"
  by (simp add: reportBounds_eq)

lemma createColorMapForCSV_Inl:
  "createColorMapForCSV maxArgs zs cm = Inl e \<Longrightarrow> e = RangeError \<and> maxArgs < length zs"
  by (simp add: createColorMapForCSV_eq split: if_splits)

lemma reportBounds_Inl:
  "reportBounds maxArgs upd zs st = Inl e \<Longrightarrow> e = RangeError \<and> maxArgs < length zs"
  by (simp add: reportBounds_eq split: option.splits if_splits)

lemma resolved_simps [simp]:
  "resolved r (Inl e) = Inl e" "resolved r (Inr st) = Inr (r, st)"
  by (simp_all add: resolved_def)

text \<open>The whole callback, in terms of the accepted rows.\<close>

lemma loadCSV_eq:
  "loadCSV maxArgs data cm upd st =
     (if filter accepted data = [] then Inl NoValidPoints
      else
        (case (if firstRowHasRGB data
               then Inr (concat (map row_rgb
                      (filter (\<lambda>row. 6 \<le> length row) (filter accepted data))))
               else createColorMapForCSV maxArgs (map (\<lambda>row. row ! 2) (filter accepted data)) cm) of
           Inl e \<Rightarrow> Inl e
         | Inr cs \<Rightarrow>
             resolved
               \<lparr>positions = Float32Array (concat (map row_xyz (filter accepted data))),
                colors = cs,
                originalData = data,
                zValues = map (\<lambda>row. row ! 2) (filter accepted data),
                hasRGB = firstRowHasRGB data\<rparr>
               (reportBounds maxArgs upd (map (\<lambda>row. row ! 2) (filter accepted data)) st)))"
  unfolding loadCSV_def Let_def csv_fold
  by (simp add: csv_acc0_def Float32Array_row_rgb resolved_def split: sum.splits)

section \<open>Claims about the delimited-text parser\<close>

text \<open>What holds of the rejections: the "no valid points" error is raised exactly when
  no row was accepted; the only other error is the \<open>RangeError\<close> of a spread; and a file
  whose accepted rows are no more than the engine accepts arguments resolves with a
  record of as many points.\<close>

lemma loadCSV_errors:
  assumes "loadCSV maxArgs data cm upd st = Inl e"
  shows "e = NoValidPoints \<and> filter accepted data = [] \<or>
         e = RangeError \<and> maxArgs < length (filter accepted data)"
  using assms
  by (auto simp add: loadCSV_eq resolved_def split: if_splits sum.splits
      dest: createColorMapForCSV_Inl reportBounds_Inl)

lemma loadCSV_no_valid_points:
  "(loadCSV maxArgs data cm upd st = Inl NoValidPoints) = (filter accepted data = [])"
proof
  assume "loadCSV maxArgs data cm upd st = Inl NoValidPoints"
  from loadCSV_errors [OF this] show "filter accepted data = []" by simp
next
  assume "filter accepted data = []"
  then show "loadCSV maxArgs data cm upd st = Inl NoValidPoints"
    by (simp add: loadCSV_eq)
qed

lemma loadCSV_resolves:
  assumes "filter accepted data \<noteq> []" "length (filter accepted data) \<le> maxArgs"
  shows "\<exists>r st'. loadCSV maxArgs data cm upd st = Inr (r, st') \<and>
           length (zValues r) = length (filter accepted data)"
  using assms
  by (cases upd) (simp_all add: loadCSV_eq createColorMapForCSV_eq reportBounds_eq)

lemma accepted_replicate:
  "accepted row \<Longrightarrow> filter accepted (replicate n row) = replicate n row"
  by (induction n) simp_all

text \<open>
  C8: the claim is that the parser rejects exactly when no row was accepted, and
  resolves with a record as soon as one row is. It does not: \<open>Math.min(...zValues)\<close>
  passes every z value as an argument, so a file with more accepted rows than the engine
  accepts arguments is rejected with a \<open>RangeError\<close>, every row of it accepted; so it is
  when the colours are generated, and when they are read and the callback is given.
\<close>

theorem C8_many_rows_range_error:
  "filter accepted (replicate (Suc (maxArgs + k)) [Fin 0, Fin 0, Fin 0]) =
     replicate (Suc (maxArgs + k)) [Fin 0, Fin 0, Fin 0] \<and>
   loadCSV maxArgs (replicate (Suc (maxArgs + k)) [Fin 0, Fin 0, Fin 0]) cm upd st = Inl RangeError \<and>
   loadCSV maxArgs (replicate (Suc (maxArgs + k)) [Fin 0, Fin 0, Fin 0, Fin 255, Fin 0, Fin 0]) cm
     (Some u) st = Inl RangeError"
proof (intro conjI)
  have a3: "accepted [Fin 0, Fin 0, Fin 0]" and a6: "accepted [Fin 0, Fin 0, Fin 0, Fin 255, Fin 0, Fin 0]"
    by (simp_all add: accepted_def)
  show f3: "filter accepted (replicate (Suc (maxArgs + k)) [Fin 0, Fin 0, Fin 0]) =
      replicate (Suc (maxArgs + k)) [Fin 0, Fin 0, Fin 0]"
    by (rule accepted_replicate [OF a3])
  have f6: "filter accepted (replicate (Suc (maxArgs + k)) [Fin 0, Fin 0, Fin 0, Fin 255, Fin 0, Fin 0]) =
      replicate (Suc (maxArgs + k)) [Fin 0, Fin 0, Fin 0, Fin 255, Fin 0, Fin 0]"
    by (rule accepted_replicate [OF a6])
  have "\<not> firstRowHasRGB (replicate (Suc (maxArgs + k)) [Fin 0, Fin 0, Fin 0])"
    by (simp add: firstRowHasRGB_def)
  then show "loadCSV maxArgs (replicate (Suc (maxArgs + k)) [Fin 0, Fin 0, Fin 0]) cm upd st = Inl RangeError"
    unfolding loadCSV_eq f3 by (simp add: createColorMapForCSV_eq)
  have "firstRowHasRGB (replicate (Suc (maxArgs + k)) [Fin 0, Fin 0, Fin 0, Fin 255, Fin 0, Fin 0])"
    by (simp add: firstRowHasRGB_def)
  then show "loadCSV maxArgs (replicate (Suc (maxArgs + k)) [Fin 0, Fin 0, Fin 0, Fin 255, Fin 0, Fin 0]) cm
     (Some u) st = Inl RangeError"
    unfolding loadCSV_eq f6 by (simp add: reportBounds_eq)
qed




text \<open>What the buffers of a parsed file always agree on: three coordinates and one z
  value for each accepted row; three colour components for each of them when the colours
  are generated, and for each accepted row with six fields when they are read.\<close>

lemma length_triples:
  "length (concat (map (\<lambda>z. case f z of (r, g, b) \<Rightarrow> [h r, h g, h b]) zs)) = 3 * length zs"
  by (induction zs) (simp_all split: prod.splits)

lemma length_createColorMapForCSV:
  "createColorMapForCSV maxArgs zs cm = Inr cs \<Longrightarrow> length cs = 3 * length zs"
  by (auto simp add: createColorMapForCSV_eq length_triples split: if_splits)

lemma length_concat_xyz: "length (concat (map row_xyz rows)) = 3 * length rows"
  by (induction rows) (simp_all add: row_xyz_def)

lemma length_concat_rgb: "length (concat (map row_rgb rows)) = 3 * length rows"
  by (induction rows) (simp_all add: row_rgb_def)

lemma loadCSV_lengths:
  assumes "loadCSV maxArgs data cm upd st = Inr (r, st')"
  shows "length (positions r) = 3 * length (zValues r)"
    and "length (zValues r) = length (filter accepted data)"
    and "\<not> hasRGB r \<Longrightarrow> length (colors r) = 3 * length (zValues r)"
    and "hasRGB r \<Longrightarrow>
           length (colors r) = 3 * length (filter (\<lambda>row. 6 \<le> length row) (filter accepted data))"
  using assms
  by (auto simp add: loadCSV_eq resolved_def Float32Array_def length_concat_xyz length_concat_rgb
      split: if_splits sum.splits dest: length_createColorMapForCSV)

text \<open>
  C1: the claim is that positions, colours and z values agree on the number of points,
  also when the first row has six fields and a later accepted row has fewer. The parser
  does not keep that: for the rows \<open>0,0,0,255,0,0\<close> and \<open>1,1,1\<close> it resolves with two
  points (six coordinates, two z values) and the colour of the first point only.
\<close>

theorem C1_colors_shorter_than_positions:
  "loadCSV maxArgs [[Fin 0, Fin 0, Fin 0, Fin 255, Fin 0, Fin 0], [Fin 1, Fin 1, Fin 1]] cm upd st =
     resolved
       \<lparr>positions = [Fin 0, Fin 0, Fin 0, Fin 1, Fin 1, Fin 1],
           colors = [Fin 1, Fin 0, Fin 0],
           originalData = [[Fin 0, Fin 0, Fin 0, Fin 255, Fin 0, Fin 0], [Fin 1, Fin 1, Fin 1]],
           zValues = [Fin 0, Fin 1], hasRGB = True\<rparr>
       (reportBounds maxArgs upd [Fin 0, Fin 1] st) \<and>
   loadCSV maxArgs [[Fin 0, Fin 0, Fin 0, Fin 255, Fin 0, Fin 0], [Fin 1, Fin 1, Fin 1]] cm None st =
     Inr (\<lparr>positions = [Fin 0, Fin 0, Fin 0, Fin 1, Fin 1, Fin 1],
           colors = [Fin 1, Fin 0, Fin 0],
           originalData = [[Fin 0, Fin 0, Fin 0, Fin 255, Fin 0, Fin 0], [Fin 1, Fin 1, Fin 1]],
           zValues = [Fin 0, Fin 1], hasRGB = True\<rparr>, st) \<and>
   loadCSV (2 + k) [[Fin 0, Fin 0, Fin 0, Fin 255, Fin 0, Fin 0], [Fin 1, Fin 1, Fin 1]] cm
       (Some u) st =
     Inr (\<lparr>positions = [Fin 0, Fin 0, Fin 0, Fin 1, Fin 1, Fin 1],
           colors = [Fin 1, Fin 0, Fin 0],
           originalData = [[Fin 0, Fin 0, Fin 0, Fin 255, Fin 0, Fin 0], [Fin 1, Fin 1, Fin 1]],
           zValues = [Fin 0, Fin 1], hasRGB = True\<rparr>, u (Fin 0) (Fin 1) st)"
proof -
  have eq: "loadCSV maxArgs [[Fin 0, Fin 0, Fin 0, Fin 255, Fin 0, Fin 0], [Fin 1, Fin 1, Fin 1]] cm upd st =
     resolved
       \<lparr>positions = [Fin 0, Fin 0, Fin 0, Fin 1, Fin 1, Fin 1],
           colors = [Fin 1, Fin 0, Fin 0],
           originalData = [[Fin 0, Fin 0, Fin 0, Fin 255, Fin 0, Fin 0], [Fin 1, Fin 1, Fin 1]],
           zValues = [Fin 0, Fin 1], hasRGB = True\<rparr>
       (reportBounds maxArgs upd [Fin 0, Fin 1] st)"
    for maxArgs and upd :: "(jsnum \<Rightarrow> jsnum \<Rightarrow> 'a \<Rightarrow> 'a) option"
    by (simp add: loadCSV_eq accepted_def row_xyz_def row_rgb_def clampChannel_def
        firstRowHasRGB_def Float32Array_def F32_LIMIT_def)
  have "reportBounds (2 + k) (Some u) [Fin 0, Fin 1] st = Inr (u (Fin 0) (Fin 1) st)"
    by (simp add: reportBounds_eq Math_min_def Math_max_def Math_min2_def Math_max2_def)
  then show ?thesis by (simp add: eq)
qed

text \<open>The delimited-text parser drops a row with a coordinate that is not finite: of
  the rows \<open>1,2,NaN\<close> and \<open>3,4,5\<close> the point \<open>(3,4,5)\<close> alone is kept, and no position
  of a parsed file is NaN. A coordinate beyond the range of single precision is accepted
  and stored as an infinity.\<close>

lemma loadCSV_drops_nonfinite_example:
  "loadCSV maxArgs [[Fin 1, Fin 2, NaN], [Fin 3, Fin 4, Fin 5]] cm upd st =
     (case createColorMapForCSV maxArgs [Fin 5] cm of
        Inl e \<Rightarrow> Inl e
      | Inr cs \<Rightarrow>
          resolved
            \<lparr>positions = [Fin 3, Fin 4, Fin 5], colors = cs,
             originalData = [[Fin 1, Fin 2, NaN], [Fin 3, Fin 4, Fin 5]],
             zValues = [Fin 5], hasRGB = False\<rparr>
            (reportBounds maxArgs upd [Fin 5] st))"
  by (simp add: loadCSV_eq accepted_def row_xyz_def firstRowHasRGB_def Float32Array_def
      F32_LIMIT_def split: sum.splits)

lemma loadCSV_positions_not_NaN:
  assumes "loadCSV maxArgs data cm upd st = Inr (r, st')"
  shows "\<forall>p\<in>set (positions r). \<not> isNaN p"
proof -
  have "\<not> isNaN (toFloat32 x)" if "isFinite x" for x
    using that by (cases x) simp_all
  then have "\<forall>p\<in>set (Float32Array (concat (map row_xyz (filter accepted data)))). \<not> isNaN p"
    by (auto simp add: Float32Array_def row_xyz_def accepted_def)
  with assms show ?thesis
    by (auto simp add: loadCSV_eq resolved_def split: if_splits sum.splits)
qed

lemma loadCSV_float32_overflow_example:
  "loadCSV maxArgs [[Fin (10 ^ 39), Fin 2, Fin 3]] cm upd st =
     (case createColorMapForCSV maxArgs [Fin 3] cm of
        Inl e \<Rightarrow> Inl e
      | Inr cs \<Rightarrow>
          resolved
            \<lparr>positions = [PInf, Fin 2, Fin 3], colors = cs,
             originalData = [[Fin (10 ^ 39), Fin 2, Fin 3]],
             zValues = [Fin 3], hasRGB = False\<rparr>
            (reportBounds maxArgs upd [Fin 3] st))"
  by (simp add: loadCSV_eq accepted_def row_xyz_def firstRowHasRGB_def Float32Array_def
      F32_LIMIT_def split: sum.splits)

section \<open>Claims about the colormap engine\<close>

lemma min_flat: "foldl Math_min2 (Fin c) (replicate n (Fin c)) = Fin c"
  by (induction n) (simp_all add: Math_min2_def)

lemma max_flat: "foldl Math_max2 (Fin c) (replicate n (Fin c)) = Fin c"
  by (induction n) (simp_all add: Math_max2_def)

lemma Math_min_flat: "Math_min (replicate (Suc n) (Fin c)) = Fin c"
  by (simp add: Math_min_def Math_min2_def min_flat)

lemma Math_max_flat: "Math_max (replicate (Suc n) (Fin c)) = Fin c"
  by (simp add: Math_max_def Math_max2_def max_flat)

lemma colorOf_NaN:
  "colorOf ''default'' NaN = (NaN, NaN, Fin 0)"
  "colorOf ''elevation'' NaN = (Fin 1, NaN, NaN)"
  "colorOf ''rainbow'' NaN = (Fin 0, Fin 0, Fin 0)"
  by (simp_all add: colorOf_def HSVtoRGB_def js_sub_def Let_def)

lemma flat_colormap:
  "createColorMapForCSV (Suc n + k) (replicate (Suc n) (Fin c)) mapType =
     Inr (concat (replicate (Suc n)
       (case colorOf mapType NaN of (r, g, b) \<Rightarrow> [toFloat32 r, toFloat32 g, toFloat32 b])))"
proof -
  have norm: "js_div (js_sub z (Fin c)) (js_sub (Fin c) (Fin c)) = NaN" 
    if "z = Fin c" for z
    using that by (simp add: js_sub_def)
  have "map (\<lambda>z. case colorOf mapType (js_div (js_sub z (Fin c)) (js_sub (Fin c) (Fin c))) of
                 (r, g, b) \<Rightarrow> [toFloat32 r, toFloat32 g, toFloat32 b]) (replicate (Suc n) (Fin c))
      = replicate (Suc n) (case colorOf mapType NaN of (r, g, b) \<Rightarrow> [toFloat32 r, toFloat32 g, toFloat32 b])"
    unfolding map_replicate norm [OF refl] ..
  then show ?thesis
    unfolding createColorMapForCSV_eq Math_min_flat Math_max_flat
    by simp
qed

text \<open>
  C2: the claim is that an input whose values all coincide gives no NaN component and
  only components between 0 and 1, under each palette. The colormap divides zero by zero
  there: on every engine that accepts the values as arguments, every point of such an
  input is \<open>(NaN, NaN, 0)\<close> under the default palette and \<open>(1, NaN, NaN)\<close> under the
  elevation palette; only the rainbow palette gives numbers, the black \<open>(0, 0, 0)\<close>.
\<close>

theorem C2_flat_input_gives_NaN:
  "createColorMapForCSV (Suc n + k) (replicate (Suc n) (Fin c)) ''default'' =
     Inr (concat (replicate (Suc n) [NaN, NaN, Fin 0])) \<and>
   createColorMapForCSV (Suc n + k) (replicate (Suc n) (Fin c)) ''elevation'' =
     Inr (concat (replicate (Suc n) [Fin 1, NaN, NaN])) \<and>
   createColorMapForCSV (Suc n + k) (replicate (Suc n) (Fin c)) ''rainbow'' =
     Inr (concat (replicate (Suc n) [Fin 0, Fin 0, Fin 0])) \<and>
   createColorMapForCSV (Suc k) [Fin 5] ''default'' = Inr [NaN, NaN, Fin 0] \<and>
   \<not> unit_component ([NaN, NaN, Fin 0] ! 0)"
proof -
  have one: "[Fin 5] = replicate (Suc 0) (Fin 5)" by simp
  have five: "createColorMapForCSV (Suc k) [Fin 5] ''default'' = Inr [NaN, NaN, Fin 0]"
    unfolding one using flat_colormap [of 0 k 5 "''default''"]
    by (simp add: colorOf_NaN F32_LIMIT_def)
  show ?thesis
    unfolding flat_colormap colorOf_NaN five
    by (simp add: F32_LIMIT_def unit_component_def)
qed

lemmas cm_eval = createColorMapForCSV_eq colorOf_def Math_min_def Math_max_def
  Math_min2_def Math_max2_def js_sub_def F32_LIMIT_def Let_def

text \<open>
  C7: the elevation palette is the ramp blue, cyan, green, yellow, red, white in five
  bands of width 0.2, each interpolating its two end colours by the band's fraction times
  5; the normalized value 0.2 is pure cyan \<open>(0, 1, 1)\<close> and 0.8 is pure red \<open>(1, 0, 0)\<close>.
  For the values 0, 1, 4, 5 the colormap gives blue, cyan, red and white, on every engine
  that accepts four arguments.
\<close>

theorem C7_elevation_ramp:
  "colorOf ''elevation'' (Fin t) = elevation_ramp t \<and>
   colorOf ''elevation'' (Fin 0.2) = (Fin 0, Fin 1, Fin 1) \<and>
   colorOf ''elevation'' (Fin 0.8) = (Fin 1, Fin 0, Fin 0) \<and>
   [elevation_ramp 0, elevation_ramp 0.2, elevation_ramp 0.4, elevation_ramp 0.6,
    elevation_ramp 0.8, elevation_ramp 1] =
     [(Fin 0, Fin 0, Fin 1), (Fin 0, Fin 1, Fin 1), (Fin 0, Fin 1, Fin 0), (Fin 1, Fin 1, Fin 0),
      (Fin 1, Fin 0, Fin 0), (Fin 1, Fin 1, Fin 1)] \<and>
   createColorMapForCSV (4 + k) [Fin 0, Fin 1, Fin 4, Fin 5] ''elevation'' =
     Inr [Fin 0, Fin 0, Fin 1, Fin 0, Fin 1, Fin 1, Fin 1, Fin 0, Fin 0, Fin 1, Fin 1, Fin 1]"
proof -
  have ramp: "colorOf ''elevation'' (Fin t) = elevation_ramp t"
    by (simp add: colorOf_def elevation_ramp_def lerp3_def js_sub_def)
  have cyan: "colorOf ''elevation'' (Fin 0.2) = (Fin 0, Fin 1, Fin 1)"
    by (simp add: colorOf_def js_sub_def)
  have red: "colorOf ''elevation'' (Fin 0.8) = (Fin 1, Fin 0, Fin 0)"
    by (simp add: colorOf_def js_sub_def)
  have ends: "[elevation_ramp 0, elevation_ramp 0.2, elevation_ramp 0.4, elevation_ramp 0.6,
    elevation_ramp 0.8, elevation_ramp 1] =
     [(Fin 0, Fin 0, Fin 1), (Fin 0, Fin 1, Fin 1), (Fin 0, Fin 1, Fin 0), (Fin 1, Fin 1, Fin 0),
      (Fin 1, Fin 0, Fin 0), (Fin 1, Fin 1, Fin 1)]"
    by (simp add: elevation_ramp_def lerp3_def)
  have run: "createColorMapForCSV (4 + k) [Fin 0, Fin 1, Fin 4, Fin 5] ''elevation'' =
     Inr [Fin 0, Fin 0, Fin 1, Fin 0, Fin 1, Fin 1, Fin 1, Fin 0, Fin 0, Fin 1, Fin 1, Fin 1]"
    by (simp add: cm_eval)
  from ramp cyan red ends run show ?thesis by blast
qed

theorem C7_elevation_ramp_witness:
  "colorOf ''elevation'' (Fin (1 / 10)) = (Fin 0, Fin (1 / 2), Fin 1) \<and>
   colorOf ''elevation'' (Fin (9 / 10)) = (Fin 1, Fin (1 / 2), Fin (1 / 2))"
  using C7_elevation_ramp [of "1 / 10" 0] C7_elevation_ramp [of "9 / 10" 0]
  by (simp add: elevation_ramp_def lerp3_def)

section \<open>Claims about the bounds tracker\<close>

lemma Math_min2_le: "\<not> isNaN a \<Longrightarrow> \<not> isNaN b \<Longrightarrow> js_le (Math_min2 a b) a"
  by (cases a; cases b) (simp_all add: Math_min2_def js_le_def)

lemma Math_max2_ge: "\<not> isNaN a \<Longrightarrow> \<not> isNaN b \<Longrightarrow> js_le a (Math_max2 a b)"
  by (cases a; cases b) (simp_all add: Math_max2_def js_le_def)

lemma js_le_trans: "js_le a b \<Longrightarrow> js_le b c \<Longrightarrow> js_le a c"
  by (cases a; cases b; cases c) (simp_all add: js_le_def)

text \<open>
  C4, as stated for all inputs, fails on NaN: merging the extrema \<open>NaN, NaN\<close> into
  \<open>[-10, 10]\<close> gives \<open>[NaN, NaN]\<close>, which does not contain \<open>[-10, 10]\<close>.
\<close>

theorem C4_merge_nan_counterexample:
  "\<not> contains_interval (mergeBounds (Fin (- 10), Fin 10) NaN NaN) (Fin (- 10), Fin 10)"
  by (simp add: contains_interval_def mergeBounds_def Math_min2_def Math_max2_def js_le_def)

text \<open>
  C4, amended: on finite numbers the merge of \<open>[curMin, curMax]\<close> with \<open>newMin\<close> and
  \<open>newMax\<close> is \<open>[min curMin newMin, max curMax newMax]\<close>; whenever none of the four
  numbers is NaN the result contains the current interval; the merge of \<open>[-5, 5]\<close> with
  \<open>-10, 3\<close> is \<open>[-10, 5]\<close>, and that of \<open>[-10, 5]\<close> with \<open>0, 0\<close> is \<open>[-10, 5]\<close>.
\<close>

theorem C4_merge_bounds:
  "mergeBounds (Fin a, Fin b) (Fin c) (Fin d) = (Fin (min a c), Fin (max b d)) \<and>
   (\<not> isNaN curMin \<and> \<not> isNaN curMax \<and> \<not> isNaN newMin \<and> \<not> isNaN newMax \<longrightarrow>
      contains_interval (mergeBounds (curMin, curMax) newMin newMax) (curMin, curMax)) \<and>
   mergeBounds (Fin (- 5), Fin 5) (Fin (- 10)) (Fin 3) = (Fin (- 10), Fin 5) \<and>
   mergeBounds (Fin (- 10), Fin 5) (Fin 0) (Fin 0) = (Fin (- 10), Fin 5)"
proof (intro conjI impI)
  show "mergeBounds (Fin a, Fin b) (Fin c) (Fin d) = (Fin (min a c), Fin (max b d))"
    by (simp add: mergeBounds_def Math_min2_def Math_max2_def min_def max_def)
next
  assume "\<not> isNaN curMin \<and> \<not> isNaN curMax \<and> \<not> isNaN newMin \<and> \<not> isNaN newMax"
  then show "contains_interval (mergeBounds (curMin, curMax) newMin newMax) (curMin, curMax)"
    by (simp add: mergeBounds_def contains_interval_def Math_min2_le Math_max2_ge)
next
  show "mergeBounds (Fin (- 5), Fin 5) (Fin (- 10)) (Fin 3) = (Fin (- 10), Fin 5)"
    by (simp add: mergeBounds_def Math_min2_def Math_max2_def)
next
  show "mergeBounds (Fin (- 10), Fin 5) (Fin 0) (Fin 0) = (Fin (- 10), Fin 5)"
    by (simp add: mergeBounds_def Math_min2_def Math_max2_def)
qed

theorem C4_merge_bounds_witness:
  "\<not> isNaN (Fin (- 5)) \<and> \<not> isNaN (Fin 5) \<and> \<not> isNaN NInf \<and> \<not> isNaN (Fin 3) \<and>
   contains_interval (mergeBounds (Fin (- 5), Fin 5) NInf (Fin 3)) (Fin (- 5), Fin 5) \<and>
   mergeBounds (Fin (- 5), Fin 5) NInf (Fin 3) = (NInf, Fin 5)"
  using C4_merge_bounds [of 0 0 0 0 "Fin (- 5)" "Fin 5" NInf "Fin 3"]
  by (simp add: mergeBounds_def Math_min2_def Math_max2_def)

lemma heightBounds_update:
  "heightBounds (updateHeightBounds mn mx s) = mergeBounds (heightBounds s) mn mx"
  by (simp add: updateHeightBounds_def Let_def)

text \<open>One update keeps an interval that the bounds already contain.\<close>

lemma update_contains:
  assumes "contains_interval (heightBounds s) iv" "\<not> isNaN mn" "\<not> isNaN mx"
  shows "contains_interval (heightBounds (updateHeightBounds mn mx s)) iv"
proof -
  obtain lo hi where b: "heightBounds s = (lo, hi)" by (cases "heightBounds s")
  from assms(1) b have lo: "js_le lo (fst iv)" and hi: "js_le (snd iv) hi"
    by (simp_all add: contains_interval_def)
  have "js_le (Math_min2 lo mn) lo"
    using lo assms(2) by (intro Math_min2_le) (simp_all add: js_le_def)
  then have 1: "js_le (Math_min2 lo mn) (fst iv)" using lo by (rule js_le_trans)
  have "js_le hi (Math_max2 hi mx)"
    using hi assms(3) by (intro Math_max2_ge) (simp_all add: js_le_def)
  with hi have 2: "js_le (snd iv) (Math_max2 hi mx)" by (rule js_le_trans)
  show ?thesis
    using 1 2 by (simp add: heightBounds_update mergeBounds_def b contains_interval_def)
qed

lemma updateAll_contains:
  "contains_interval (heightBounds s) iv \<Longrightarrow>
   \<forall>u\<in>set us. \<not> isNaN (fst u) \<and> \<not> isNaN (snd u) \<Longrightarrow>
   contains_interval (heightBounds (updateAll us s)) iv"
proof (induction us arbitrary: s)
  case Nil
  then show ?case by (simp add: updateAll_def)
next
  case (Cons u us)
  obtain mn mx where u: "u = (mn, mx)" by (cases u)
  have "contains_interval (heightBounds (updateHeightBounds mn mx s)) iv"
    using Cons.prems u by (intro update_contains) simp_all
  then have "contains_interval (heightBounds (updateAll us (updateHeightBounds mn mx s))) iv"
    using Cons.prems by (intro Cons.IH) simp_all
  then show ?case by (simp add: updateAll_def u)
qed

text \<open>An update inside the bounds leaves them as they are.\<close>

lemma Math_min2_absorb: "js_le a b \<Longrightarrow> Math_min2 a b = a"
  by (cases a; cases b) (simp_all add: Math_min2_def js_le_def)

lemma Math_max2_absorb: "js_le b a \<Longrightarrow> Math_max2 a b = a"
  by (cases a; cases b) (simp_all add: Math_max2_def js_le_def)

lemma updateAll_inside:
  "heightBounds s = (lo, hi) \<Longrightarrow> \<forall>u\<in>set us. js_le lo (fst u) \<and> js_le (snd u) hi \<Longrightarrow>
   heightBounds (updateAll us s) = (lo, hi)"
proof (induction us arbitrary: s)
  case Nil
  then show ?case by (simp add: updateAll_def)
next
  case (Cons u us)
  obtain mn mx where u: "u = (mn, mx)" by (cases u)
  have "heightBounds (updateHeightBounds mn mx s) = (lo, hi)"
    using Cons.prems u
    by (simp add: heightBounds_update mergeBounds_def Math_min2_absorb Math_max2_absorb)
  then have "heightBounds (updateAll us (updateHeightBounds mn mx s)) = (lo, hi)"
    using Cons.prems by (intro Cons.IH) simp_all
  then show ?case by (simp add: updateAll_def u)
qed

text \<open>
  C10, as stated for every sequence of updates, fails once an update carries NaN: the
  bounds are then \<open>[NaN, NaN]\<close> for the rest of the session.
\<close>

theorem C10_nan_update_counterexample:
  "\<not> contains_interval (heightBounds (updateAll [(Fin 0, Fin 1), (NaN, NaN), (Fin 2, Fin 3)] app_state0))
        (Fin (- 10), Fin 10)"
  by (simp add: updateAll_def heightBounds_update mergeBounds_def app_state0_def
      Math_min2_def Math_max2_def contains_interval_def js_le_def)

text \<open>
  C10, amended: the bounds start at \<open>[-10, 10]\<close>; after any sequence of updates none of
  which carries NaN they contain \<open>[-10, 10]\<close>, and after updates that all lie within
  \<open>[-10, 10]\<close> they are exactly \<open>[-10, 10]\<close>, not the extrema of the clouds.
\<close>

theorem C10_bounds_contain_default:
  "((\<forall>u\<in>set us. \<not> isNaN (fst u) \<and> \<not> isNaN (snd u)) \<longrightarrow>
      contains_interval (heightBounds (updateAll us app_state0)) (Fin (- 10), Fin 10)) \<and>
   ((\<forall>u\<in>set us. js_le (Fin (- 10)) (fst u) \<and> js_le (snd u) (Fin 10)) \<longrightarrow>
      heightBounds (updateAll us app_state0) = (Fin (- 10), Fin 10))"
proof (intro conjI impI)
  assume "\<forall>u\<in>set us. \<not> isNaN (fst u) \<and> \<not> isNaN (snd u)"
  moreover have "contains_interval (heightBounds app_state0) (Fin (- 10), Fin 10)"
    by (simp add: app_state0_def contains_interval_def js_le_def)
  ultimately show "contains_interval (heightBounds (updateAll us app_state0)) (Fin (- 10), Fin 10)"
    by (intro updateAll_contains)
next
  assume "\<forall>u\<in>set us. js_le (Fin (- 10)) (fst u) \<and> js_le (snd u) (Fin 10)"
  moreover have "heightBounds app_state0 = (Fin (- 10), Fin 10)"
    by (simp add: app_state0_def)
  ultimately show "heightBounds (updateAll us app_state0) = (Fin (- 10), Fin 10)"
    by (intro updateAll_inside)
qed

theorem C10_bounds_contain_default_witness:
  "heightBounds (updateAll [(Fin (- 3), Fin 4), (Fin 0, Fin 9)] app_state0) = (Fin (- 10), Fin 10) \<and>
   contains_interval (heightBounds (updateAll [(Fin (- 3), Fin 4), (Fin 0, Fin 9)] app_state0))
     (Fin (- 10), Fin 10) \<and>
   contains_interval (heightBounds (updateAll [(Fin (- 30), Fin 4), (Fin 0, PInf)] app_state0))
     (Fin (- 10), Fin 10) \<and>
   heightBounds (updateAll [(Fin (- 30), Fin 4), (Fin 0, PInf)] app_state0) = (Fin (- 30), PInf)"
  using C10_bounds_contain_default [of "[(Fin (- 3), Fin 4), (Fin 0, Fin 9)]"]
    C10_bounds_contain_default [of "[(Fin (- 30), Fin 4), (Fin 0, PInf)]"]
  by (simp add: js_le_def updateAll_def heightBounds_update mergeBounds_def app_state0_def
      Math_min2_def Math_max2_def)

section \<open>Claims about the scientific-format parser\<close>

text \<open>The errors of the fallback are its own or the spread's: it never reports an invalid
  format.\<close>

lemma loadPCD_fallback_error: "loadPCD_fallback maxArgs ld upd st \<noteq> Inl InvalidPCDFormat"
  by (auto simp add: loadPCD_fallback_def Let_def
      split: loaded.splits list.splits object3d.splits option.splits sum.splits
      dest: reportBounds_Inl)

text \<open>
  C9: a text that lacks both the marker at its start and the version keyword is rejected
  with the invalid-format error, whatever the delegate loader would have returned and
  before any line is read, so that no record is produced; and this error is raised for no
  other text.
\<close>

theorem C9_invalid_format:
  "(loadPCD maxArgs text ld upd st = Inl InvalidPCDFormat) =
     (\<not> startsWith text ''# .PCD'' \<and> \<not> includes_str text ''VERSION'')"
proof (cases "\<not> startsWith text ''# .PCD'' \<and> \<not> includes_str text ''VERSION''")
  case True
  then show ?thesis by (simp add: loadPCD_def)
next
  case False
  then have "loadPCD maxArgs text ld upd st \<noteq> Inl InvalidPCDFormat"
    by (auto simp add: loadPCD_def Let_def loadPCD_fallback_error split: sum.splits
        dest: reportBounds_Inl)
  with False show ?thesis by simp
qed

theorem C9_invalid_format_witness:
  "\<not> startsWith ''x y z'' ''# .PCD'' \<and> \<not> includes_str ''x y z'' ''VERSION'' \<and>
   loadPCD 100000 ''x y z'' (Group [Points (Some \<lparr>attr_position = Some [Fin 1, Fin 2, Fin 3], attr_color = None\<rparr>)])
     None () = Inl InvalidPCDFormat"
  using C9_invalid_format [of 100000 "''x y z''"
      "Group [Points (Some \<lparr>attr_position = Some [Fin 1, Fin 2, Fin 3], attr_color = None\<rparr>)]" None "()"]
  by (simp add: startsWith_def)

lemmas str_eval = trim_def is_ws_def startsWith_def strip_sign_def
  is_digit_def digit_of_def digits_val_def toDouble_def DBL_LIMIT_def Let_def
  radix_prefix_def parse_decimal_def js_Number_def parseInt_def

text \<open>The direct parse, when it yields a point.\<close>

lemma loadPCD_direct:
  assumes sig: "startsWith text ''# .PCD'' \<or> includes_str text ''VERSION''"
    and hdr: "scanHeader 0 (split_on CHR 0x0A text) pcd_header0 = h"
    and ascii: "isASCII h" "js_lt (Fin 0) (pointCount h)"
    and data: "foldl (pcd_line (hdr_hasColor h)) ([], []) (drop (dataStartLine h) (split_on CHR 0x0A text))
                = (ps, cs)"
    and ne: "ps \<noteq> []"
  shows "loadPCD maxArgs text ld upd st =
     resolved
       \<lparr>positions = Float32Array ps,
        colors = (if cs \<noteq> [] then Float32Array cs
                  else createSingleColorForPCD (real (length ps) / 3)),
        originalData = rebuildRows ps
          (if cs \<noteq> [] then Float32Array cs else createSingleColorForPCD (real (length ps) / 3)),
        zValues = extractZ ps, hasColor = (cs \<noteq> [])\<rparr>
       (reportBounds maxArgs upd (extractZ ps) st)"
  using sig ne unfolding loadPCD_def Let_def hdr
  by (auto simp add: ascii data resolved_def split: sum.splits)

lemma nan_header:
  "scanHeader 0 (split_on CHR 0x0A pcd_nan_file) pcd_header0 =
     \<lparr>dataStartLine = 5, pointCount = Fin 1, hdr_hasColor = True, isASCII = True\<rparr>"
  by (simp add: pcd_nan_file_def pcd_header0_def str_eval)

lemma nan_data:
  "foldl (pcd_line True) ([], []) (drop 5 (split_on CHR 0x0A pcd_nan_file)) =
     ([Fin 1, Fin 2, NaN], [Fin 1, Fin 0, Fin 0])"
  by (simp add: pcd_nan_file_def pcd_line_def str_eval)

lemma loadPCD_nan_file_direct:
  "loadPCD maxArgs pcd_nan_file ld upd st =
     resolved
       \<lparr>positions = Float32Array [Fin 1, Fin 2, NaN],
        colors = (if [Fin 1, Fin 0, Fin 0] \<noteq> [] then Float32Array [Fin 1, Fin 0, Fin 0]
                  else createSingleColorForPCD (real (length [Fin 1, Fin 2, NaN]) / 3)),
        originalData = rebuildRows [Fin 1, Fin 2, NaN]
          (if [Fin 1, Fin 0, Fin 0] \<noteq> [] then Float32Array [Fin 1, Fin 0, Fin 0]
           else createSingleColorForPCD (real (length [Fin 1, Fin 2, NaN]) / 3)),
        zValues = extractZ [Fin 1, Fin 2, NaN], hasColor = ([Fin 1, Fin 0, Fin 0] \<noteq> [])\<rparr>
       (reportBounds maxArgs upd (extractZ [Fin 1, Fin 2, NaN]) st)"
proof -
  have "startsWith pcd_nan_file ''# .PCD''"
    by (simp add: pcd_nan_file_def startsWith_def)
  then show ?thesis
    by (intro loadPCD_direct [OF _ nan_header]) (simp_all add: nan_data)
qed

lemma loadPCD_nan_file:
  "loadPCD maxArgs pcd_nan_file ld upd st =
     resolved
       \<lparr>positions = [Fin 1, Fin 2, NaN], colors = [Fin 1, Fin 0, Fin 0],
           originalData = [[Fin 1, Fin 2, NaN, Fin 255, Fin 0, Fin 0]],
           zValues = [NaN], hasColor = True\<rparr>
       (reportBounds maxArgs upd [NaN] st)"
proof -
  have z: "extractZ [Fin 1, Fin 2, NaN] = [NaN]"
    by (simp add: extractZ_def js_nth_def)
  have f: "Float32Array [Fin 1, Fin 2, NaN] = [Fin 1, Fin 2, NaN]"
    "Float32Array [Fin 1, Fin 0, Fin 0] = [Fin 1, Fin 0, Fin 0]"
    by (simp_all add: Float32Array_def F32_LIMIT_def)
  have rows: "rebuildRows [Fin 1, Fin 2, NaN] [Fin 1, Fin 0, Fin 0] =
      [[Fin 1, Fin 2, NaN, Fin 255, Fin 0, Fin 0]]"
    by (simp add: rebuildRows_def js_nth_def)
  show ?thesis
    unfolding loadPCD_nan_file_direct z f by (simp add: rows)
qed

text \<open>
  C3: the claim is that both parsers keep finite coordinates only. The scientific-format
  parser has no such test: the data line \<open>1 2 nan 255 0 0\<close> of an ASCII file is kept as
  the point \<open>(1, 2, NaN)\<close>, and NaN is reported as both extrema of the z values.
\<close>

theorem C3_pcd_keeps_nan:
  "loadPCD maxArgs pcd_nan_file ld upd st =
     resolved
       \<lparr>positions = [Fin 1, Fin 2, NaN], colors = [Fin 1, Fin 0, Fin 0],
           originalData = [[Fin 1, Fin 2, NaN, Fin 255, Fin 0, Fin 0]],
           zValues = [NaN], hasColor = True\<rparr>
       (reportBounds maxArgs upd [NaN] st) \<and>
   loadPCD maxArgs pcd_nan_file ld None st =
     Inr (\<lparr>positions = [Fin 1, Fin 2, NaN], colors = [Fin 1, Fin 0, Fin 0],
           originalData = [[Fin 1, Fin 2, NaN, Fin 255, Fin 0, Fin 0]],
           zValues = [NaN], hasColor = True\<rparr>, st) \<and>
   loadPCD (Suc k) pcd_nan_file ld (Some u) st =
     Inr (\<lparr>positions = [Fin 1, Fin 2, NaN], colors = [Fin 1, Fin 0, Fin 0],
           originalData = [[Fin 1, Fin 2, NaN, Fin 255, Fin 0, Fin 0]],
           zValues = [NaN], hasColor = True\<rparr>, u NaN NaN st)"
proof -
  have "reportBounds (Suc k) (Some u) [NaN] st = Inr (u NaN NaN st)"
    by (simp add: reportBounds_eq Math_min_def Math_max_def Math_min2_def Math_max2_def)
  then show ?thesis
    by (simp add: loadPCD_nan_file)
qed

text \<open>With the application's callback, that file turns the initial bounds into
  \<open>[NaN, NaN]\<close>.\<close>

lemma pcd_nan_file_bounds:
  "\<exists>r. loadPCD (Suc k) pcd_nan_file ld (Some updateHeightBounds) app_state0 =
         Inr (r, updateAll [(NaN, NaN)] app_state0) \<and>
       heightBounds (updateAll [(NaN, NaN)] app_state0) = (NaN, NaN)"
proof -
  have "reportBounds (Suc k) (Some updateHeightBounds) [NaN] app_state0 =
      Inr (updateAll [(NaN, NaN)] app_state0)"
    by (simp add: reportBounds_eq updateAll_def Math_min_def Math_max_def Math_min2_def
        Math_max2_def)
  moreover have "heightBounds (updateAll [(NaN, NaN)] app_state0) = (NaN, NaN)"
    by (simp add: updateAll_def heightBounds_update mergeBounds_def Math_min2_def Math_max2_def)
  ultimately show ?thesis
    by (simp add: loadPCD_nan_file)
qed

section \<open>Claims about the export and the round trip\<close>










lemma csvHeader_rows: "csvHeader = [NaN, NaN, NaN, NaN, NaN, NaN]"
  by (simp add: csvHeader_def eval_nat_numeral)





text \<open>A record whose colours are fewer than its points does not come back either: the
  export writes \<open>NaN\<close> for the missing components, and the parser reads them as 128.\<close>

lemma roundTrip_misaligned_example:
  "roundTrip maxArgs
       \<lparr>positions = [Fin 0, Fin 0, Fin 0, Fin 1, Fin 1, Fin 1], colors = [Fin 1, Fin 0, Fin 0],
             originalData = [[Fin 0, Fin 0, Fin 0, Fin 255, Fin 0, Fin 0], [Fin 1, Fin 1, Fin 1]],
             zValues = [Fin 0, Fin 1], hasRGB = True\<rparr> =
     Inr (\<lparr>positions = [Fin 0, Fin 0, Fin 0, Fin 1, Fin 1, Fin 1],
           colors = [Fin 1, Fin 0, Fin 0, Fin (128 / 255), Fin (128 / 255), Fin (128 / 255)],
           originalData = [[NaN, NaN, NaN, NaN, NaN, NaN],
                           [Fin 0, Fin 0, Fin 0, Fin 255, Fin 0, Fin 0],
                           [Fin 1, Fin 1, Fin 1, NaN, NaN, NaN]],
           zValues = [Fin 0, Fin 1], hasRGB = True\<rparr>, ())"
proof -
  have idx: "[0..<(length [Fin 0, Fin 0, Fin 0, Fin 1, Fin 1, Fin 1 :: jsnum] + 2) div 3] = [0, 1]"
    by (simp add: upt_rec)
  have "rebuildRows [Fin 0, Fin 0, Fin 0, Fin 1, Fin 1, Fin 1] [Fin 1, Fin 0, Fin 0] =
      [[Fin 0, Fin 0, Fin 0, Fin 255, Fin 0, Fin 0], [Fin 1, Fin 1, Fin 1, NaN, NaN, NaN]]"
    unfolding rebuildRows_def idx by (simp add: js_nth_def)
  then have rows: "exportToCSV [] [(''cloud'',
        \<lparr>positions = [Fin 0, Fin 0, Fin 0, Fin 1, Fin 1, Fin 1], colors = [Fin 1, Fin 0, Fin 0],
         originalData = [[Fin 0, Fin 0, Fin 0, Fin 255, Fin 0, Fin 0], [Fin 1, Fin 1, Fin 1]],
         zValues = [Fin 0, Fin 1], hasRGB = True\<rparr>)] =
      [[NaN, NaN, NaN, NaN, NaN, NaN], [Fin 0, Fin 0, Fin 0, Fin 255, Fin 0, Fin 0],
       [Fin 1, Fin 1, Fin 1, NaN, NaN, NaN]]"
    by (simp add: exportToCSV_def exportCloud_def csvHeader_rows)
  show ?thesis
    unfolding roundTrip_def rows
    by (simp add: loadCSV_eq accepted_def row_xyz_def row_rgb_def clampChannel_def
        firstRowHasRGB_def Float32Array_def F32_LIMIT_def)
qed




end
